theory Spec2Isabelle
  imports Main "HOL-Library.Sublist" "HOL-Library.Word"
begin

section \<open>Values shared by the handlers\<close>

text \<open>
  A value that a JavaScript \<^verbatim>\<open>throw\<close> (or a rejected promise) can carry. The
  handlers and services only ask two things of it: whether it is
  \<^verbatim>\<open>instanceof Error\<close>, and, when it is, its \<^verbatim>\<open>message\<close>.
\<close>

datatype js_value =
    JsUndefined
  | JsNull
  | JsBool bool
  | JsNumber int
  | JsString string
  | JsFunction string
  | JsArray "js_value list"
  | JsObject "(string \<times> js_value) list"

datatype thrown =
    ErrorInstance string  \<comment> \<open>an instance of \<^verbatim>\<open>Error\<close>, with its \<^verbatim>\<open>message\<close>\<close>
  | NonError js_value     \<comment> \<open>any other thrown value\<close>

text \<open>
  \<^verbatim>\<open>new AppError({ statusCode, message })\<close>: the typed error object handed to the
  centralized error responder.
\<close>

record AppError =
  statusCode :: nat
  message :: string

text \<open>What a handler or service raises: an \<^verbatim>\<open>AppError\<close> of its own, or a caught value passed on.\<close>

datatype raised =
    AppErr AppError
  | Rethrown thrown

text \<open>The argument of a call of \<^verbatim>\<open>next\<close>: \<^verbatim>\<open>next()\<close> or \<^verbatim>\<open>next(err)\<close>.\<close>

datatype next_arg =
    NoArg
  | Err raised

section \<open>Identifiers\<close>

text \<open>
  A document identifier is the database driver's 12-byte \<^verbatim>\<open>ObjectId\<close>; its
  \<^verbatim>\<open>toString()\<close> is the 24-digit lowercase hexadecimal rendering of the bytes, two
  digits a byte, high nibble first.
\<close>

datatype ObjectId = ObjectId "8 word list"

definition hexDigit :: "nat \<Rightarrow> char" where
  "hexDigit n = ''0123456789abcdef'' ! n"

definition byteHex :: "8 word \<Rightarrow> string" where
  "byteHex b = [hexDigit (unat b div 16), hexDigit (unat b mod 16)]"

fun toString :: "ObjectId \<Rightarrow> string" where
  "toString (ObjectId bs) = concat (map byteHex bs)"




section \<open>Request and response\<close>

text \<open>
  \<^verbatim>\<open>res.locals.user\<close>, the current user attached by the authentication middleware:
  its \<^verbatim>\<open>_id\<close> is read as a string and its \<^verbatim>\<open>role\<close> is a role name.
\<close>

record user =
  user_id :: string
  role :: string

record userRef =
  ref_id :: ObjectId

record booking =
  booking_id :: ObjectId
  booking_user :: userRef

text \<open>The JSON bodies the handlers send.\<close>

datatype body =
    JStr string
  | JNum nat
  | JBooking booking
  | JBookings "booking list"
  | JObj "(string \<times> body) list"

record request =
  params :: "string \<rightharpoonup> string"
  query :: "string \<rightharpoonup> string"
  req_body :: js_value

record response =
  locals_user :: user
  status_code :: "nat option"
  json_body :: "body option"

text \<open>\<^verbatim>\<open>res.status(n)\<close> and \<^verbatim>\<open>res.json(b)\<close>, each returning the response it updated.\<close>

definition status :: "nat \<Rightarrow> response \<Rightarrow> response" where
  "status n res = res\<lparr>status_code := Some n\<rparr>"

definition json :: "body \<Rightarrow> response \<Rightarrow> response" where
  "json b res = res\<lparr>json_body := Some b\<rparr>"

text \<open>
  A middleware or handler takes the request and the response and returns the response as
  it left it, with the argument of its call of \<^verbatim>\<open>next\<close> when it made one.
\<close>

type_synonym outcome = "response \<times> next_arg option"

section \<open>Role guard: restrictTo\<close>

text \<open>\<^verbatim>\<open>roles.join(sep)\<close> on an array of strings.\<close>

fun join :: "string \<Rightarrow> string list \<Rightarrow> string" where
  "join sep [] = []"
| "join sep [x] = x"
| "join sep (x # y # ys) = x @ sep @ join sep (y # ys)"

definition restrictTo_message :: "string list \<Rightarrow> string" where
  "restrictTo_message roles =
     ''Unauthorized - You don't have permissions. Access restricted to ''
       @ join '', '' roles @ ''.''"

definition restrictTo :: "string list \<Rightarrow> request \<Rightarrow> response \<Rightarrow> outcome" where
  "restrictTo roles req res =
     (let currentUser = locals_user res;
          currentUserRole = role currentUser
      in if \<not> (currentUserRole \<in> set roles)
         then (res, Some (Err (AppErr \<lparr>statusCode = 403,
                                        message = restrictTo_message roles\<rparr>)))
         else (res, Some NoArg))"

section \<open>Booking handlers\<close>

text \<open>
  The booking service is outside the handlers: \<^verbatim>\<open>getBooking\<close> resolves to a booking
  or to \<^verbatim>\<open>null\<close>, \<^verbatim>\<open>getMyBookings\<close> to a list of bookings, and either may reject
  with a thrown value. The handlers take them as parameters. A rejection is caught
  by the handler and handed to \<^verbatim>\<open>next\<close>; the log line written before that is left
  out.
\<close>

definition userIsAdmin :: "string \<Rightarrow> bool" where
  "userIsAdmin currentUserRole = (currentUserRole = ''admin'')"

definition userIsBooker :: "booking \<Rightarrow> string \<Rightarrow> bool" where
  "userIsBooker booking currentUserId =
     (toString (ref_id (booking_user booking)) = currentUserId)"

definition getBookingHandler ::
  "(string option \<Rightarrow> thrown + booking option) \<Rightarrow> request \<Rightarrow> response \<Rightarrow> outcome" where
  "getBookingHandler getBooking req res =
     (let bookingId = params req ''bookingId'';
          currentUserId = user_id (locals_user res);
          currentUserRole = role (locals_user res)
      in case getBooking bookingId of
           Inl error \<Rightarrow> (res, Some (Err (Rethrown error)))
         | Inr None \<Rightarrow>
             (res, Some (Err (AppErr \<lparr>statusCode = 404, message = ''Booking not found''\<rparr>)))
         | Inr (Some booking) \<Rightarrow>
             if \<not> userIsAdmin currentUserRole \<and> \<not> userIsBooker booking currentUserId
             then (res, Some (Err (AppErr \<lparr>statusCode = 403,
                    message = ''You can only check a booking that you booked yourself, or you need to be Admin''\<rparr>)))
             else (json (JObj [(''status'', JStr ''success''),
                               (''data'', JObj [(''booking'', JBooking booking)])])
                     (status 200 res), None))"

definition getMyBookingsHandler ::
  "(string \<Rightarrow> thrown + booking list) \<Rightarrow> request \<Rightarrow> response \<Rightarrow> outcome" where
  "getMyBookingsHandler getMyBookings req res =
     (let userId = user_id (locals_user res)
      in case getMyBookings userId of
           Inl err \<Rightarrow> (res, Some (Err (Rethrown err)))
         | Inr bookings \<Rightarrow>
             (json (JObj [(''status'', JStr ''success''),
                          (''dataCount'', JNum (length bookings)),
                          (''data'', JObj [(''bookings'', JBookings bookings)])])
                (status 200 res), None))"

section \<open>User service\<close>

text \<open>
  A user document as the service sees it: the plain objects its \<^verbatim>\<open>toJSON()\<close> and
  \<^verbatim>\<open>toObject()\<close> give (before any transform), and its \<^verbatim>\<open>comparePassword\<close> method.
\<close>

type_synonym obj = "(string \<times> js_value) list"

record userDocument =
  toJSON :: obj
  doc_object :: obj
  comparePassword :: "string \<Rightarrow> thrown + bool"

text \<open>\<^verbatim>\<open>omit(object, key)\<close> and \<^verbatim>\<open>delete ret.key\<close>: the object without that key.\<close>

definition omit :: "obj \<Rightarrow> string \<Rightarrow> obj" where
  "omit object key = filter (\<lambda>(k, v). k \<noteq> key) object"

definition delete_key :: "string \<Rightarrow> obj \<Rightarrow> obj" where
  "delete_key key ret = filter (\<lambda>(k, v). k \<noteq> key) ret"

text \<open>\<^verbatim>\<open>doc.toObject({ transform })\<close>: the transform applied to the plain object.\<close>

definition toObject :: "(userDocument \<Rightarrow> obj \<Rightarrow> obj) \<Rightarrow> userDocument \<Rightarrow> obj" where
  "toObject transform doc = transform doc (doc_object doc)"

definition createUser :: "('i \<Rightarrow> thrown + userDocument) \<Rightarrow> 'i \<Rightarrow> raised + obj" where
  "createUser create inputData =
     (case create inputData of
        Inr newUser \<Rightarrow> Inr (omit (toJSON newUser) ''password'')
      | Inl err \<Rightarrow>
          (case err of
             ErrorInstance msg \<Rightarrow> Inl (AppErr \<lparr>statusCode = 409, message = msg\<rparr>)
           | NonError v \<Rightarrow> Inl (Rethrown err)))"

definition checkPassword ::
  "(string \<Rightarrow> thrown + userDocument option) \<Rightarrow> string \<Rightarrow> string \<Rightarrow> thrown + obj option" where
  "checkPassword findOne email password =
     (case findOne email of
        Inl err \<Rightarrow> Inl err
      | Inr None \<Rightarrow> Inr None
      | Inr (Some user) \<Rightarrow>
          (case comparePassword user password of
             Inl err \<Rightarrow> Inl err
           | Inr isValid \<Rightarrow>
               if \<not> isValid then Inr None
               else Inr (Some (toObject
                      (\<lambda>doc ret. delete_key ''comparePassword'' (delete_key ''password'' ret))
                      user))))"

section \<open>Example values\<close>

text \<open>Two users, a booking of the first, and a small booking store, used to run the
  handlers on concrete inputs.\<close>

definition oidA :: ObjectId where
  "oidA = ObjectId [0x50, 0x7f, 0x1f, 0x77, 0xbc, 0xf8, 0x6c, 0xd7, 0x99, 0x43, 0x90, 0x11]"

definition oidB :: ObjectId where
  "oidB = ObjectId [0x50, 0x7f, 0x19, 0x1e, 0x81, 0x0c, 0x19, 0x72, 0x9d, 0xe8, 0x60, 0xea]"

definition bookingA :: booking where
  "bookingA = \<lparr>booking_id = ObjectId [0x65, 0, 0, 0, 0, 0, 0, 0, 0, 0, 0, 0x01],
                booking_user = \<lparr>ref_id = oidA\<rparr>\<rparr>"

definition bookingB :: booking where
  "bookingB = \<lparr>booking_id = ObjectId [0x65, 0, 0, 0, 0, 0, 0, 0, 0, 0, 0, 0x02],
                booking_user = \<lparr>ref_id = oidB\<rparr>\<rparr>"

definition res_of :: "string \<Rightarrow> string \<Rightarrow> response" where
  "res_of uid r = \<lparr>locals_user = \<lparr>user_id = uid, role = r\<rparr>,
                    status_code = None, json_body = None\<rparr>"

definition req_of :: "string \<Rightarrow> request" where
  "req_of bid = \<lparr>params = [''bookingId'' \<mapsto> bid], query = Map.empty, req_body = JsNull\<rparr>"

text \<open>
  Modelled from the spec: the booking service's \<^verbatim>\<open>getBooking\<close> is not among the
  sources; the lookup gives the booking with the identifier asked for and "returns
  nothing" when no booking has it.
\<close>

definition getBooking_in :: "booking list \<Rightarrow> string option \<Rightarrow> thrown + booking option" where
  "getBooking_in db bookingId =
     Inr (find (\<lambda>b. Some (toString (booking_id b)) = bookingId) db)"

text \<open>
  Modelled from the spec: the booking service's \<^verbatim>\<open>getMyBookings\<close> is not among the
  sources; the self-scoped listing "takes only the current user's id" and "implicitly
  filters to bookings owned by that user".
\<close>

definition getMyBookings_in :: "booking list \<Rightarrow> string \<Rightarrow> thrown + booking list" where
  "getMyBookings_in db userId =
     Inr (filter (\<lambda>b. toString (ref_id (booking_user b)) = userId) db)"

text \<open>A request that carries another user's id in its parameters, query and body.\<close>

definition req_override :: request where
  "req_override = \<lparr>params = [''userId'' \<mapsto> ''507f191e810c19729de860ea''],
                    query = [''user'' \<mapsto> ''507f191e810c19729de860ea''],
                    req_body = JsObject [(''user'', JsString ''507f191e810c19729de860ea'')]\<rparr>"

text \<open>A stored user, with a password hash, and a user lookup by email.\<close>

definition userDocA :: userDocument where
  "userDocA = \<lparr>toJSON = [(''_id'', JsString ''507f1f77bcf86cd799439011''),
                          (''email'', JsString ''a@example.com''),
                          (''password'', JsString ''$2b$10$hash'')],
               doc_object = [(''_id'', JsString ''507f1f77bcf86cd799439011''),
                          (''email'', JsString ''a@example.com''),
                          (''password'', JsString ''$2b$10$hash''),
                          (''comparePassword'', JsFunction ''comparePassword'')],
               comparePassword = (\<lambda>candidate. Inr (candidate = ''secret''))\<rparr>"

definition findOne_A :: "string \<Rightarrow> thrown + userDocument option" where
  "findOne_A email = Inr (if email = ''a@example.com'' then Some userDocA else None)"

section \<open>Facts about the helpers\<close>

lemma sublist_join: "r \<in> set rs \<Longrightarrow> sublist r (join sep rs)"
proof (induction sep rs rule: join.induct)
  case (1 sep)
  then show ?case by simp
next
  case (2 sep x)
  then show ?case by simp
next
  case (3 sep x y ys)
  show ?case
  proof (cases "r = x")
    case True
    then show ?thesis by simp
  next
    case False
    with 3 have "sublist r (join sep (y # ys))" by simp
    then obtain ps ss where "join sep (y # ys) = ps @ r @ ss"
      by (auto simp: sublist_def)
    then have "join sep (x # y # ys) = (x @ sep @ ps) @ r @ ss" by simp
    then show ?thesis unfolding sublist_def by blast
  qed
qed

lemma sublist_restrictTo_message:
  assumes "r \<in> set roles"
  shows "sublist r (restrictTo_message roles)"
proof -
  from assms obtain ps ss where "join '', '' roles = ps @ r @ ss"
    using sublist_join [of r roles "'', ''"] by (auto simp: sublist_def)
  then have "\<exists>ps' ss'. restrictTo_message roles = ps' @ r @ ss'"
    unfolding restrictTo_message_def
    by (metis append.assoc)
  then show ?thesis by (simp add: sublist_def)
qed








lemma toString_oidA: "toString oidA = ''507f1f77bcf86cd799439011''"
  by (simp add: oidA_def byteHex_def hexDigit_def)

lemma toString_oidB: "toString oidB = ''507f191e810c19729de860ea''"
  by (simp add: oidB_def byteHex_def hexDigit_def)

lemma bookingA_id: "toString (booking_id bookingA) = ''650000000000000000000001''"
  by (simp add: bookingA_def byteHex_def hexDigit_def)

lemma lookup_bookingA:
  "getBooking_in [bookingA, bookingB] (params (req_of ''650000000000000000000001'') ''bookingId'')
     = Inr (Some bookingA)"
  by (simp add: getBooking_in_def req_of_def bookingA_id)

lemma lookup_missing:
  "getBooking_in [bookingA, bookingB] (params (req_of ''650000000000000000000009'') ''bookingId'')
     = Inr None"
  by (simp add: getBooking_in_def req_of_def bookingA_def bookingB_def byteHex_def hexDigit_def)

lemma getMyBookings_in_owned:
  "\<forall>userId bs. getMyBookings_in db userId = Inr bs \<longrightarrow>
     (\<forall>b \<in> set bs. toString (ref_id (booking_user b)) = userId)"
  by (auto simp: getMyBookings_in_def)

lemma getMyBookings_in_A:
  "getMyBookings_in [bookingA, bookingB] ''507f1f77bcf86cd799439011'' = Inr [bookingA]"
  by (simp add: getMyBookings_in_def bookingA_def bookingB_def toString_oidA toString_oidB)

lemma owner_bookingA: "toString (ref_id (booking_user bookingA)) = ''507f1f77bcf86cd799439011''"
  by (simp add: bookingA_def toString_oidA)

lemma owner_bookingB: "toString (ref_id (booking_user bookingB)) = ''507f191e810c19729de860ea''"
  by (simp add: bookingB_def toString_oidB)

lemma userIsBooker_bookingA:
  "userIsBooker bookingA ''507f1f77bcf86cd799439011''"
  "\<not> userIsBooker bookingA ''507f191e810c19729de860ea''"
  by (simp_all add: userIsBooker_def bookingA_def toString_oidA)

section \<open>The role guard\<close>

text \<open>
  C3. For a non-empty list of allowed roles and a resolved current user, the guard passes
  control on (\<^verbatim>\<open>next()\<close>) exactly when the user's role is one of the allowed roles;
  otherwise it leaves the response alone and forwards an \<^verbatim>\<open>AppError\<close> with
  \<^verbatim>\<open>statusCode\<close> 403 whose message contains every allowed role.
\<close>

theorem restrictTo_member:
  assumes "roles \<noteq> []"
  shows "(snd (restrictTo roles req res) = Some NoArg \<longleftrightarrow> role (locals_user res) \<in> set roles)
       \<and> (role (locals_user res) \<notin> set roles \<longrightarrow>
            restrictTo roles req res =
              (res, Some (Err (AppErr \<lparr>statusCode = 403, message = restrictTo_message roles\<rparr>)))
            \<and> (\<forall>r \<in> set roles. sublist r (restrictTo_message roles)))"
  by (simp add: restrictTo_def Let_def sublist_restrictTo_message)

theorem restrictTo_member_witness:
  "[''admin'', ''lead-guide''] \<noteq> []
   \<and> snd (restrictTo [''admin'', ''lead-guide''] (req_of [])
            (res_of ''507f1f77bcf86cd799439011'' ''admin'')) = Some NoArg
   \<and> restrictTo [''admin'', ''lead-guide''] (req_of [])
         (res_of ''507f1f77bcf86cd799439011'' ''user'') =
       (res_of ''507f1f77bcf86cd799439011'' ''user'',
        Some (Err (AppErr \<lparr>statusCode = 403,
          message = restrictTo_message [''admin'', ''lead-guide'']\<rparr>)))
   \<and> sublist ''admin'' (restrictTo_message [''admin'', ''lead-guide''])
   \<and> sublist ''lead-guide'' (restrictTo_message [''admin'', ''lead-guide''])"
  using restrictTo_member [of "[''admin'', ''lead-guide'']" "req_of []"
      "res_of ''507f1f77bcf86cd799439011'' ''admin''"]
    restrictTo_member [of "[''admin'', ''lead-guide'']" "req_of []"
      "res_of ''507f1f77bcf86cd799439011'' ''user''"]
  by (simp add: res_of_def)

text \<open>
  C8. Configured with no allowed role at all, the guard denies every user, whatever the
  role, with \<^verbatim>\<open>statusCode\<close> 403; the list of roles in the message is then empty.
\<close>

theorem restrictTo_empty_denies:
  "restrictTo [] req res =
     (res, Some (Err (AppErr \<lparr>statusCode = 403, message = restrictTo_message []\<rparr>)))
   \<and> restrictTo_message [] =
       ''Unauthorized - You don't have permissions. Access restricted to .''"
  by (simp add: restrictTo_def restrictTo_message_def)

section \<open>The ownership check of getBookingHandler\<close>

text \<open>
  C1. For an existing booking and a resolved current user, the handler allows access
  exactly when the user's role is \<^verbatim>\<open>admin\<close> or the user's id is the booking owner's
  id: it then sends status 200 with the body \<^verbatim>\<open>{status: 'success', data: {booking}}\<close>
  and does not call \<^verbatim>\<open>next\<close>. Otherwise it forwards an \<^verbatim>\<open>AppError\<close> with
  \<^verbatim>\<open>statusCode\<close> 403 and the message that the caller must have booked the booking or
  be Admin, and sends nothing.
\<close>

theorem getBookingHandler_admin_or_owner:
  assumes "getBooking (params req ''bookingId'') = Inr (Some booking)"
  shows "(getBookingHandler getBooking req res =
            (res\<lparr>status_code := Some 200,
                 json_body := Some (JObj [(''status'', JStr ''success''),
                                          (''data'', JObj [(''booking'', JBooking booking)])])\<rparr>,
             None) \<longleftrightarrow>
            role (locals_user res) = ''admin''
            \<or> toString (ref_id (booking_user booking)) = user_id (locals_user res))
       \<and> (snd (getBookingHandler getBooking req res) = None \<longleftrightarrow>
            role (locals_user res) = ''admin''
            \<or> toString (ref_id (booking_user booking)) = user_id (locals_user res))
       \<and> (\<not> (role (locals_user res) = ''admin''
               \<or> toString (ref_id (booking_user booking)) = user_id (locals_user res)) \<longrightarrow>
            getBookingHandler getBooking req res =
              (res, Some (Err (AppErr \<lparr>statusCode = 403,
                 message = ''You can only check a booking that you booked yourself, or you need to be Admin''\<rparr>))))"
  using assms
  by (simp add: getBookingHandler_def Let_def userIsAdmin_def userIsBooker_def json_def status_def)

theorem getBookingHandler_admin_or_owner_witness:
  "getBooking_in [bookingA, bookingB] (params (req_of ''650000000000000000000001'') ''bookingId'')
     = Inr (Some bookingA)
   \<and> getBookingHandler (getBooking_in [bookingA, bookingB])
        (req_of ''650000000000000000000001'') (res_of ''507f1f77bcf86cd799439011'' ''user'') =
       ((res_of ''507f1f77bcf86cd799439011'' ''user'')
          \<lparr>status_code := Some 200,
           json_body := Some (JObj [(''status'', JStr ''success''),
                                    (''data'', JObj [(''booking'', JBooking bookingA)])])\<rparr>,
        None)
   \<and> getBookingHandler (getBooking_in [bookingA, bookingB])
        (req_of ''650000000000000000000001'') (res_of ''507f191e810c19729de860ea'' ''admin'') =
       ((res_of ''507f191e810c19729de860ea'' ''admin'')
          \<lparr>status_code := Some 200,
           json_body := Some (JObj [(''status'', JStr ''success''),
                                    (''data'', JObj [(''booking'', JBooking bookingA)])])\<rparr>,
        None)
   \<and> getBookingHandler (getBooking_in [bookingA, bookingB])
        (req_of ''650000000000000000000001'') (res_of ''507f191e810c19729de860ea'' ''user'') =
       (res_of ''507f191e810c19729de860ea'' ''user'',
        Some (Err (AppErr \<lparr>statusCode = 403,
          message = ''You can only check a booking that you booked yourself, or you need to be Admin''\<rparr>)))"
  using getBookingHandler_admin_or_owner [where getBooking = "getBooking_in [bookingA, bookingB]"
      and req = "req_of ''650000000000000000000001''" and booking = bookingA
      and res = "res_of ''507f1f77bcf86cd799439011'' ''user''"]
    getBookingHandler_admin_or_owner [where getBooking = "getBooking_in [bookingA, bookingB]"
      and req = "req_of ''650000000000000000000001''" and booking = bookingA
      and res = "res_of ''507f191e810c19729de860ea'' ''admin''"]
    getBookingHandler_admin_or_owner [where getBooking = "getBooking_in [bookingA, bookingB]"
      and req = "req_of ''650000000000000000000001''" and booking = bookingA
      and res = "res_of ''507f191e810c19729de860ea'' ''user''"]
    lookup_bookingA
  by (simp add: res_of_def owner_bookingA)

text \<open>
  C2. When the lookup of the booking id returns nothing, the handler forwards an
  \<^verbatim>\<open>AppError\<close> with \<^verbatim>\<open>statusCode\<close> 404 whoever the current user is: the outcome is
  reached before the role or the owner is looked at, so it is the same for every user.
\<close>

theorem getBookingHandler_not_found:
  assumes "getBooking (params req ''bookingId'') = Inr None"
  shows "getBookingHandler getBooking req res =
           (res, Some (Err (AppErr \<lparr>statusCode = 404, message = ''Booking not found''\<rparr>)))
       \<and> (\<forall>res'. snd (getBookingHandler getBooking req res') =
                   snd (getBookingHandler getBooking req res))"
  using assms by (simp add: getBookingHandler_def Let_def)

theorem getBookingHandler_not_found_witness:
  "getBooking_in [bookingA, bookingB] (params (req_of ''650000000000000000000009'') ''bookingId'')
     = Inr None
   \<and> getBookingHandler (getBooking_in [bookingA, bookingB])
        (req_of ''650000000000000000000009'') (res_of ''507f191e810c19729de860ea'' ''admin'') =
       (res_of ''507f191e810c19729de860ea'' ''admin'',
        Some (Err (AppErr \<lparr>statusCode = 404, message = ''Booking not found''\<rparr>)))
   \<and> snd (getBookingHandler (getBooking_in [bookingA, bookingB])
        (req_of ''650000000000000000000009'') (res_of ''507f1f77bcf86cd799439011'' ''user'')) =
       Some (Err (AppErr \<lparr>statusCode = 404, message = ''Booking not found''\<rparr>))"
  using getBookingHandler_not_found [where getBooking = "getBooking_in [bookingA, bookingB]"
      and req = "req_of ''650000000000000000000009''"
      and res = "res_of ''507f191e810c19729de860ea'' ''admin''"]
    getBookingHandler_not_found [where getBooking = "getBooking_in [bookingA, bookingB]"
      and req = "req_of ''650000000000000000000009''"
      and res = "res_of ''507f1f77bcf86cd799439011'' ''user''"]
    lookup_missing
  by simp




text \<open>
  C7. On a denial (404 or 403) the handler forwards an \<^verbatim>\<open>AppError\<close> with its
  \<^verbatim>\<open>statusCode\<close> and \<^verbatim>\<open>message\<close> to \<^verbatim>\<open>next\<close> and leaves the response as it was;
  whenever it calls \<^verbatim>\<open>next\<close> the response is untouched. Only when access is allowed
  does it write the response: status 200 and the body
  \<^verbatim>\<open>{status: 'success', data: {booking}}\<close>.
\<close>

theorem getBookingHandler_denial_forwards_error:
  "(getBooking (params req ''bookingId'') = Inr None \<longrightarrow>
      getBookingHandler getBooking req res =
        (res, Some (Err (AppErr \<lparr>statusCode = 404, message = ''Booking not found''\<rparr>))))
   \<and> (\<forall>booking. getBooking (params req ''bookingId'') = Inr (Some booking)
         \<and> \<not> userIsAdmin (role (locals_user res))
         \<and> \<not> userIsBooker booking (user_id (locals_user res)) \<longrightarrow>
       getBookingHandler getBooking req res =
         (res, Some (Err (AppErr \<lparr>statusCode = 403,
            message = ''You can only check a booking that you booked yourself, or you need to be Admin''\<rparr>))))
   \<and> (\<forall>booking. getBooking (params req ''bookingId'') = Inr (Some booking)
         \<and> (userIsAdmin (role (locals_user res))
              \<or> userIsBooker booking (user_id (locals_user res))) \<longrightarrow>
       getBookingHandler getBooking req res =
         (res\<lparr>status_code := Some 200,
              json_body := Some (JObj [(''status'', JStr ''success''),
                                       (''data'', JObj [(''booking'', JBooking booking)])])\<rparr>,
          None))
   \<and> (\<forall>e. snd (getBookingHandler getBooking req res) = Some e \<longrightarrow>
         fst (getBookingHandler getBooking req res) = res)
   \<and> (fst (getBookingHandler getBooking req res) \<noteq> res \<longrightarrow>
         snd (getBookingHandler getBooking req res) = None
         \<and> (\<exists>booking. getBooking (params req ''bookingId'') = Inr (Some booking)
               \<and> (userIsAdmin (role (locals_user res))
                    \<or> userIsBooker booking (user_id (locals_user res)))))"
  by (auto simp: getBookingHandler_def Let_def json_def status_def
      split: sum.splits option.splits)

theorem getBookingHandler_denial_forwards_error_witness:
  "getBookingHandler (getBooking_in [bookingA, bookingB])
        (req_of ''650000000000000000000009'') (res_of ''507f1f77bcf86cd799439011'' ''user'') =
       (res_of ''507f1f77bcf86cd799439011'' ''user'',
        Some (Err (AppErr \<lparr>statusCode = 404, message = ''Booking not found''\<rparr>)))
   \<and> getBookingHandler (getBooking_in [bookingA, bookingB])
        (req_of ''650000000000000000000001'') (res_of ''507f191e810c19729de860ea'' ''user'') =
       (res_of ''507f191e810c19729de860ea'' ''user'',
        Some (Err (AppErr \<lparr>statusCode = 403,
          message = ''You can only check a booking that you booked yourself, or you need to be Admin''\<rparr>)))
   \<and> getBookingHandler (getBooking_in [bookingA, bookingB])
        (req_of ''650000000000000000000001'') (res_of ''507f1f77bcf86cd799439011'' ''user'') =
       ((res_of ''507f1f77bcf86cd799439011'' ''user'')
          \<lparr>status_code := Some 200,
           json_body := Some (JObj [(''status'', JStr ''success''),
                                    (''data'', JObj [(''booking'', JBooking bookingA)])])\<rparr>,
        None)"
  using getBookingHandler_denial_forwards_error
     [where getBooking = "getBooking_in [bookingA, bookingB]"
       and req = "req_of ''650000000000000000000009''"
       and res = "res_of ''507f1f77bcf86cd799439011'' ''user''"]
    getBookingHandler_denial_forwards_error
     [where getBooking = "getBooking_in [bookingA, bookingB]"
       and req = "req_of ''650000000000000000000001''"
       and res = "res_of ''507f191e810c19729de860ea'' ''user''"]
    getBookingHandler_denial_forwards_error
     [where getBooking = "getBooking_in [bookingA, bookingB]"
       and req = "req_of ''650000000000000000000001''"
       and res = "res_of ''507f1f77bcf86cd799439011'' ''user''"]
  by (simp add: lookup_bookingA lookup_missing userIsAdmin_def userIsBooker_bookingA
      res_of_def)

text \<open>
  C6. The role guard and the ownership check are functions of their inputs alone and
  change nothing: two evaluations with the same current user (and, for the ownership
  check, the same lookup result) reach the same decision, whatever else the request and
  the response hold; the guard returns the response as it got it, the handler leaves the
  current user as it was and sends the booking as it was looked up; and evaluating
  again on the response an evaluation left gives the same decision.
\<close>

theorem guards_deterministic_and_stateless:
  "(locals_user res' = locals_user res \<longrightarrow>
      snd (restrictTo roles req' res') = snd (restrictTo roles req res))
   \<and> fst (restrictTo roles req res) = res
   \<and> snd (restrictTo roles req (fst (restrictTo roles req res))) = snd (restrictTo roles req res)
   \<and> (locals_user res' = locals_user res
        \<and> getBooking' (params req' ''bookingId'') = getBooking (params req ''bookingId'') \<longrightarrow>
      snd (getBookingHandler getBooking' req' res') = snd (getBookingHandler getBooking req res))
   \<and> locals_user (fst (getBookingHandler getBooking req res)) = locals_user res
   \<and> (snd (getBookingHandler getBooking req res) = None \<longrightarrow>
        (\<exists>booking. getBooking (params req ''bookingId'') = Inr (Some booking)
           \<and> json_body (fst (getBookingHandler getBooking req res)) =
               Some (JObj [(''status'', JStr ''success''),
                           (''data'', JObj [(''booking'', JBooking booking)])])))
   \<and> snd (getBookingHandler getBooking req (fst (getBookingHandler getBooking req res))) =
       snd (getBookingHandler getBooking req res)"
  by (auto simp: restrictTo_def getBookingHandler_def Let_def json_def status_def
      split: sum.splits option.splits)

theorem guards_deterministic_and_stateless_witness:
  "locals_user ((res_of ''507f191e810c19729de860ea'' ''user'')\<lparr>status_code := Some 500\<rparr>) =
     locals_user (res_of ''507f191e810c19729de860ea'' ''user'')
   \<and> getBooking_in [bookingA] (params (req_of ''650000000000000000000001'') ''bookingId'') =
       getBooking_in [bookingA, bookingB]
         (params (req_of ''650000000000000000000001'') ''bookingId'')
   \<and> snd (restrictTo [''admin''] req_override
        ((res_of ''507f191e810c19729de860ea'' ''user'')\<lparr>status_code := Some 500\<rparr>)) =
       snd (restrictTo [''admin''] (req_of ''650000000000000000000001'')
        (res_of ''507f191e810c19729de860ea'' ''user''))
   \<and> snd (getBookingHandler (getBooking_in [bookingA]) (req_of ''650000000000000000000001'')
        ((res_of ''507f191e810c19729de860ea'' ''user'')\<lparr>status_code := Some 500\<rparr>)) =
       snd (getBookingHandler (getBooking_in [bookingA, bookingB])
        (req_of ''650000000000000000000001'') (res_of ''507f191e810c19729de860ea'' ''user''))
   \<and> snd (getBookingHandler (getBooking_in [bookingA, bookingB])
        (req_of ''650000000000000000000001'') (res_of ''507f1f77bcf86cd799439011'' ''user'')) = None"
proof -
  have u: "locals_user ((res_of ''507f191e810c19729de860ea'' ''user'')\<lparr>status_code := Some 500\<rparr>) =
      locals_user (res_of ''507f191e810c19729de860ea'' ''user'')"
    by (simp add: res_of_def)
  have l: "getBooking_in [bookingA] (params (req_of ''650000000000000000000001'') ''bookingId'') =
      getBooking_in [bookingA, bookingB]
        (params (req_of ''650000000000000000000001'') ''bookingId'')"
    by (simp add: getBooking_in_def req_of_def bookingA_id)
  have a: "snd (getBookingHandler (getBooking_in [bookingA, bookingB])
      (req_of ''650000000000000000000001'') (res_of ''507f1f77bcf86cd799439011'' ''user'')) = None"
    by (simp add: getBookingHandler_def lookup_bookingA userIsBooker_bookingA res_of_def)
  show ?thesis
    using u l a
      guards_deterministic_and_stateless
        [where res' = "(res_of ''507f191e810c19729de860ea'' ''user'')\<lparr>status_code := Some 500\<rparr>"
          and res = "res_of ''507f191e810c19729de860ea'' ''user''"
          and roles = "[''admin'']" and req' = req_override
          and req = "req_of ''650000000000000000000001''"
          and getBooking' = "getBooking_in [bookingA]"
          and getBooking = "getBooking_in [bookingA, bookingB]"]
      guards_deterministic_and_stateless
        [where res' = "(res_of ''507f191e810c19729de860ea'' ''user'')\<lparr>status_code := Some 500\<rparr>"
          and res = "res_of ''507f191e810c19729de860ea'' ''user''"
          and roles = "[''admin'']" and req' = "req_of ''650000000000000000000001''"
          and req = "req_of ''650000000000000000000001''"
          and getBooking' = "getBooking_in [bookingA]"
          and getBooking = "getBooking_in [bookingA, bookingB]"]
    by simp
qed

section \<open>The self-scoped listing\<close>

text \<open>
  C4. \<^verbatim>\<open>getMyBookingsHandler\<close> takes the identity it lists for from the current user
  alone: the request (parameters, query, body) has no influence on the outcome, and the
  service is asked for the bookings of the current user's id. So, with a service that
  returns only bookings owned by the id it is given, every booking in the answer is owned
  by the current user, whatever id the request carries.
\<close>

theorem getMyBookingsHandler_scoped_by_current_user:
  "getMyBookingsHandler getMyBookings req' res = getMyBookingsHandler getMyBookings req res
   \<and> ((\<forall>userId bs. getMyBookings userId = Inr bs \<longrightarrow>
           (\<forall>b \<in> set bs. toString (ref_id (booking_user b)) = userId)) \<longrightarrow>
        snd (getMyBookingsHandler getMyBookings req res) = None \<longrightarrow>
        (\<exists>bs. getMyBookings (user_id (locals_user res)) = Inr bs
           \<and> json_body (fst (getMyBookingsHandler getMyBookings req res)) =
               Some (JObj [(''status'', JStr ''success''),
                           (''dataCount'', JNum (length bs)),
                           (''data'', JObj [(''bookings'', JBookings bs)])])
           \<and> (\<forall>b \<in> set bs. toString (ref_id (booking_user b)) = user_id (locals_user res))))"
  by (auto simp: getMyBookingsHandler_def Let_def json_def status_def split: sum.splits)

theorem getMyBookingsHandler_scoped_by_current_user_witness:
  "getMyBookingsHandler (getMyBookings_in [bookingA, bookingB]) req_override
        (res_of ''507f1f77bcf86cd799439011'' ''user'') =
      getMyBookingsHandler (getMyBookings_in [bookingA, bookingB]) (req_of [])
        (res_of ''507f1f77bcf86cd799439011'' ''user'')
   \<and> snd (getMyBookingsHandler (getMyBookings_in [bookingA, bookingB]) req_override
        (res_of ''507f1f77bcf86cd799439011'' ''user'')) = None
   \<and> json_body (fst (getMyBookingsHandler (getMyBookings_in [bookingA, bookingB]) req_override
        (res_of ''507f1f77bcf86cd799439011'' ''user''))) =
       Some (JObj [(''status'', JStr ''success''),
                   (''dataCount'', JNum 1),
                   (''data'', JObj [(''bookings'', JBookings [bookingA])])])
   \<and> toString (ref_id (booking_user bookingA)) = ''507f1f77bcf86cd799439011''
   \<and> toString (ref_id (booking_user bookingB)) = ''507f191e810c19729de860ea''"
  using getMyBookingsHandler_scoped_by_current_user
    [where getMyBookings = "getMyBookings_in [bookingA, bookingB]"
       and req' = req_override and req = "req_of []"
       and res = "res_of ''507f1f77bcf86cd799439011'' ''user''"]
    getMyBookings_in_owned [of "[bookingA, bookingB]"]
  by (simp add: getMyBookingsHandler_def res_of_def getMyBookings_in_A json_def status_def
      owner_bookingA owner_bookingB)

section \<open>The user service\<close>

text \<open>
  C9. \<^verbatim>\<open>createUser\<close> turns an \<^verbatim>\<open>Error\<close> raised by the creation into an
  \<^verbatim>\<open>AppError\<close> with \<^verbatim>\<open>statusCode\<close> 409 and the same message, and throws any other
  thrown value again as it is.
\<close>

theorem createUser_maps_errors_to_409:
  "(\<forall>msg. create inputData = Inl (ErrorInstance msg) \<longrightarrow>
      createUser create inputData = Inl (AppErr \<lparr>statusCode = 409, message = msg\<rparr>))
   \<and> (\<forall>v. create inputData = Inl (NonError v) \<longrightarrow>
      createUser create inputData = Inl (Rethrown (NonError v)))"
  by (simp add: createUser_def)

theorem createUser_maps_errors_to_409_witness:
  "createUser (\<lambda>email. if email = ''taken@example.com''
                 then Inl (ErrorInstance ''E11000 duplicate key error'')
                 else Inl (NonError (JsString ''boom''))) ''taken@example.com''
     = Inl (AppErr \<lparr>statusCode = 409, message = ''E11000 duplicate key error''\<rparr>)
   \<and> createUser (\<lambda>email. if email = ''taken@example.com''
                 then Inl (ErrorInstance ''E11000 duplicate key error'')
                 else Inl (NonError (JsString ''boom''))) ''other@example.com''
     = Inl (Rethrown (NonError (JsString ''boom'')))"
  using createUser_maps_errors_to_409
     [where create = "\<lambda>email. if email = ''taken@example.com''
                 then Inl (ErrorInstance ''E11000 duplicate key error'')
                 else Inl (NonError (JsString ''boom''))"
        and inputData = "''taken@example.com''"]
    createUser_maps_errors_to_409
     [where create = "\<lambda>email. if email = ''taken@example.com''
                 then Inl (ErrorInstance ''E11000 duplicate key error'')
                 else Inl (NonError (JsString ''boom''))"
        and inputData = "''other@example.com''"]
  by simp

text \<open>
  C10. \<^verbatim>\<open>checkPassword\<close> returns \<^verbatim>\<open>null\<close> when no user has the email and also when
  the password comparison fails, the same value in both cases; when the user exists and
  the comparison succeeds it returns an object, and an object it returns has neither a
  \<^verbatim>\<open>password\<close> nor a \<^verbatim>\<open>comparePassword\<close> key.
\<close>

theorem checkPassword_null_or_stripped:
  "(findOne email = Inr None \<longrightarrow> checkPassword findOne email password = Inr None)
   \<and> (\<forall>user. findOne email = Inr (Some user) \<and> comparePassword user password = Inr False \<longrightarrow>
        checkPassword findOne email password = Inr None)
   \<and> (\<forall>user. findOne email = Inr (Some user) \<and> comparePassword user password = Inr True \<longrightarrow>
        (\<exists>u. checkPassword findOne email password = Inr (Some u)))
   \<and> (\<forall>u. checkPassword findOne email password = Inr (Some u) \<longrightarrow>
        ''password'' \<notin> fst ` set u \<and> ''comparePassword'' \<notin> fst ` set u)"
  by (auto simp: checkPassword_def toObject_def delete_key_def
      split: sum.splits option.splits if_splits)

theorem checkPassword_null_or_stripped_witness:
  "checkPassword findOne_A ''nobody@example.com'' ''secret'' = Inr None
   \<and> checkPassword findOne_A ''a@example.com'' ''wrong'' = Inr None
   \<and> checkPassword findOne_A ''a@example.com'' ''secret'' =
       Inr (Some [(''_id'', JsString ''507f1f77bcf86cd799439011''),
                  (''email'', JsString ''a@example.com'')])"
  using checkPassword_null_or_stripped [of findOne_A "''nobody@example.com''" "''secret''"]
    checkPassword_null_or_stripped [of findOne_A "''a@example.com''" "''wrong''"]
    checkPassword_null_or_stripped [of findOne_A "''a@example.com''" "''secret''"]
  by (simp add: findOne_A_def userDocA_def checkPassword_def toObject_def delete_key_def)

end
